theory Spec2Isabelle
  imports Complex_Main
begin

section \<open>Values, errors and the external libraries\<close>

text \<open>
  The script \<^verbatim>\<open>structured_database.py\<close> moves values between pandas tables and an
  SQLite file. A table cell is one of the Python values that occur there:
  \<^item> \<open>Null\<close>: \<^verbatim>\<open>None\<close> or a float NaN (pandas treats both as missing, sqlite3 binds both
    as NULL, neither can be subscripted);
  \<^item> \<open>NaT\<close>: the missing value of a datetime column;
  \<^item> \<open>Str\<close>: a \<^verbatim>\<open>str\<close>; \<open>Num\<close>: an \<^verbatim>\<open>int\<close> or a finite \<^verbatim>\<open>float\<close> (no property below
    depends on rounding, so numbers are reals);
  \<^item> \<open>Ts\<close>: a \<^verbatim>\<open>pandas.Timestamp\<close>, identified by the text its \<^verbatim>\<open>isoformat()\<close> returns;
  \<^item> \<open>Lst\<close>: a Python list (the coordinate array of a GeoJSON feature).
\<close>

datatype cell = Null | NaT | Str string | Num real | Ts string | Lst "cell list"

datatype error =
    KeyError string
  | IndexError string
  | ValueError string
  | TypeError string
  | AttributeError string
  | OperationalError string
  | ProgrammingError string
  | RequestError string

datatype sqlval = SNull | SInt int | SReal real | SText string

record table =
  tname :: string
  tcols :: "(string \<times> string) list"
  trows :: "sqlval list list"
  tseq :: nat

text \<open>
  What the script gets from outside its own text is a parameter of the model:
  \<^item> \<open>usgs_reply\<close>, \<open>isc_reply\<close>: the outcome of the HTTP GET of \<^verbatim>\<open>fetch_usgs_data\<close>
    (\<^verbatim>\<open>response.json()['features']\<close>, each feature with its nested objects already
    flattened to dotted paths as \<^verbatim>\<open>pd.json_normalize\<close> does) and of \<^verbatim>\<open>fetch_isc_data\<close>
    (\<^verbatim>\<open>response.text.splitlines()\<close>); \<open>Inl\<close> when the request or the decoding raises;
  \<^item> \<open>py_float\<close>: Python's \<^verbatim>\<open>float(s)\<close> on a string, \<open>None\<close> when it raises ValueError,
    \<open>Some Null\<close> for a NaN literal;
  \<^item> \<open>to_datetime_ms\<close>, \<open>to_datetime\<close>: \<^verbatim>\<open>pd.to_datetime(v, unit='ms')\<close> and
    \<^verbatim>\<open>pd.to_datetime(v)\<close> on one value, \<open>None\<close> when pandas raises;
  \<^item> \<open>sqlite_select\<close>: what SQLite answers to the text of a SELECT statement on the
    tables it sees.
\<close>

type_synonym feature = "(string \<times> cell) list"

record extern =
  usgs_reply :: "string \<Rightarrow> string \<Rightarrow> real \<Rightarrow> error + feature list"
  isc_reply :: "string \<Rightarrow> string \<Rightarrow> real \<Rightarrow> error + string list"
  py_float :: "string \<Rightarrow> cell option"
  to_datetime_ms :: "cell \<Rightarrow> cell option"
  to_datetime :: "cell \<Rightarrow> cell option"
  sqlite_select :: "string \<Rightarrow> table list \<Rightarrow> error + sqlval list list"

text \<open>Exceptions are \<open>Inl\<close>; a sequence of fallible steps stops at the first one.\<close>

definition bind_err :: "error + 'a \<Rightarrow> ('a \<Rightarrow> error + 'b) \<Rightarrow> error + 'b" where
  "bind_err r f = (case r of Inl e \<Rightarrow> Inl e | Inr x \<Rightarrow> f x)"

fun traverse :: "('a \<Rightarrow> error + 'b) \<Rightarrow> 'a list \<Rightarrow> error + 'b list" where
  "traverse f [] = Inr []"
| "traverse f (x # xs) =
     (case f x of
        Inl e \<Rightarrow> Inl e
      | Inr y \<Rightarrow> (case traverse f xs of Inl e \<Rightarrow> Inl e | Inr ys \<Rightarrow> Inr (y # ys)))"

section \<open>pandas tables\<close>

text \<open>
  A DataFrame is its columns, in order, each a list of \<open>nrows\<close> cells. The row labels
  are not modelled: the script never reads them (\<^verbatim>\<open>iterrows\<close> discards them, \<^verbatim>\<open>concat\<close>
  is called with \<^verbatim>\<open>ignore_index=True\<close>), and a column assigned to a table was always
  computed from a column of the same table.
\<close>

record frame =
  nrows :: nat
  cols :: "(string \<times> cell list) list"

definition wf_frame :: "frame \<Rightarrow> bool" where
  "wf_frame df \<longleftrightarrow>
     distinct (map fst (cols df)) \<and> (\<forall>c \<in> set (cols df). length (snd c) = nrows df)"

definition columns :: "frame \<Rightarrow> string list" where
  "columns df = map fst (cols df)"

text \<open>\<^verbatim>\<open>df[name]\<close>: the column, or KeyError.\<close>

definition getitem :: "frame \<Rightarrow> string \<Rightarrow> error + cell list" where
  "getitem df name =
     (case map_of (cols df) name of None \<Rightarrow> Inl (KeyError name) | Some c \<Rightarrow> Inr c)"

text \<open>\<^verbatim>\<open>df[name] = c\<close>: replaces the column where it stands, or appends a new last column.\<close>

primrec set_col :: "string \<Rightarrow> cell list \<Rightarrow> (string \<times> cell list) list \<Rightarrow> (string \<times> cell list) list" where
  "set_col name c [] = [(name, c)]"
| "set_col name c (p # ps) = (if fst p = name then (name, c) # ps else p # set_col name c ps)"

definition setitem :: "frame \<Rightarrow> string \<Rightarrow> cell list \<Rightarrow> frame" where
  "setitem df name c = df\<lparr>cols := set_col name c (cols df)\<rparr>"

text \<open>\<^verbatim>\<open>df[[n1, ..., nk]]\<close>: a new table with these columns, KeyError for a missing one.\<close>

definition select_cols :: "frame \<Rightarrow> string list \<Rightarrow> error + frame" where
  "select_cols df names =
     bind_err (traverse (\<lambda>n. bind_err (getitem df n) (\<lambda>c. Inr (n, c))) names)
       (\<lambda>cs. Inr \<lparr>nrows = nrows df, cols = cs\<rparr>)"

text \<open>\<^verbatim>\<open>df.iterrows()\<close>: the rows in order, each a Series indexed by the column names.\<close>

type_synonym row = "(string \<times> cell) list"

definition row_at :: "frame \<Rightarrow> nat \<Rightarrow> row" where
  "row_at df i = map (\<lambda>(n, c). (n, c ! i)) (cols df)"

definition iterrows :: "frame \<Rightarrow> row list" where
  "iterrows df = map (row_at df) [0..<nrows df]"

text \<open>\<^verbatim>\<open>row[name]\<close> and \<^verbatim>\<open>row.get(name, default)\<close>.\<close>

definition row_getitem :: "row \<Rightarrow> string \<Rightarrow> error + cell" where
  "row_getitem r name =
     (case map_of r name of None \<Rightarrow> Inl (KeyError name) | Some v \<Rightarrow> Inr v)"

definition row_get :: "row \<Rightarrow> string \<Rightarrow> cell \<Rightarrow> cell" where
  "row_get r name dflt = (case map_of r name of None \<Rightarrow> dflt | Some v \<Rightarrow> v)"

text \<open>
  \<^verbatim>\<open>pd.concat([a, b], ignore_index=True)\<close>: the columns of \<open>a\<close>, then those of \<open>b\<close> that
  \<open>a\<close> lacks; each column is \<open>a\<close>'s cells followed by \<open>b\<close>'s, with missing values where
  a table has no such column.
\<close>

definition col_or_nulls :: "frame \<Rightarrow> string \<Rightarrow> cell list" where
  "col_or_nulls df name =
     (case map_of (cols df) name of None \<Rightarrow> replicate (nrows df) Null | Some c \<Rightarrow> c)"

definition concat_frames :: "frame \<Rightarrow> frame \<Rightarrow> frame" where
  "concat_frames a b =
     \<lparr>nrows = nrows a + nrows b,
      cols = map (\<lambda>n. (n, col_or_nulls a n @ col_or_nulls b n))
               (columns a @ filter (\<lambda>n. n \<notin> set (columns a)) (columns b))\<rparr>"

text \<open>
  \<^verbatim>\<open>df.dropna(subset=names)\<close>: KeyError when a name is no column, else the rows in which
  no named column is missing.
\<close>

definition isna :: "cell \<Rightarrow> bool" where
  "isna v \<longleftrightarrow> v = Null \<or> v = NaT"

definition dropna :: "frame \<Rightarrow> string list \<Rightarrow> error + frame" where
  "dropna df names =
     (case filter (\<lambda>n. n \<notin> set (columns df)) names of
        n # _ \<Rightarrow> Inl (KeyError n)
      | [] \<Rightarrow>
          (let keep = filter (\<lambda>i. \<forall>n \<in> set names. \<not> isna (col_or_nulls df n ! i)) [0..<nrows df]
           in Inr \<lparr>nrows = length keep, cols = map (\<lambda>(n, c). (n, map (\<lambda>i. c ! i) keep)) (cols df)\<rparr>))"

text \<open>\<^verbatim>\<open>df.head()\<close> and \<^verbatim>\<open>df.isna().sum()\<close>, which the script only prints.\<close>

definition head_frame :: "frame \<Rightarrow> frame" where
  "head_frame df = \<lparr>nrows = min 5 (nrows df), cols = map (\<lambda>(n, c). (n, take 5 c)) (cols df)\<rparr>"

definition isna_sum :: "frame \<Rightarrow> (string \<times> nat) list" where
  "isna_sum df = map (\<lambda>(n, c). (n, length (filter isna c))) (cols df)"

section \<open>The two fetch functions\<close>

text \<open>
  \<^verbatim>\<open>pd.json_normalize(features)\<close>: an empty list gives the empty table, which has no
  column at all; otherwise one row per feature and one column per dotted path that
  occurs, with a missing value where a feature lacks the path.
\<close>

definition json_normalize :: "feature list \<Rightarrow> frame" where
  "json_normalize fs =
     (if fs = [] then \<lparr>nrows = 0, cols = []\<rparr>
      else \<lparr>nrows = length fs,
            cols = map (\<lambda>n. (n, map (\<lambda>f. case map_of f n of None \<Rightarrow> Null | Some v \<Rightarrow> v) fs))
                     (remdups (concat (map (map fst) fs)))\<rparr>)"

text \<open>\<^verbatim>\<open>s.split('|')\<close>: the fields between the bars, always at least one.\<close>

fun split_bar :: "string \<Rightarrow> string list" where
  "split_bar [] = [[]]"
| "split_bar (c # cs) =
     (if c = CHR ''|'' then [] # split_bar cs
      else (case split_bar cs of [] \<Rightarrow> [[c]] | w # ws \<Rightarrow> (c # w) # ws))"

text \<open>
  \<^verbatim>\<open>pd.DataFrame(data, columns=headers)\<close> on a list of lists of strings: no rows give an
  empty table with the header's columns; otherwise short rows are padded with \<^verbatim>\<open>None\<close>
  up to the longest row, and pandas raises unless that length is the header's.
\<close>

definition pad_row :: "nat \<Rightarrow> string list \<Rightarrow> cell list" where
  "pad_row w r = map Str r @ replicate (w - length r) Null"

definition data_frame :: "string list list \<Rightarrow> string list \<Rightarrow> error + frame" where
  "data_frame data headers =
     (if data = [] then Inr \<lparr>nrows = 0, cols = map (\<lambda>h. (h, [])) headers\<rparr>
      else
        (let w = foldr max (map length data) 0 in
         if w \<noteq> length headers then Inl (ValueError ''columns passed, passed data had other columns'')
         else Inr \<lparr>nrows = length data,
                   cols = map (\<lambda>j. (headers ! j, map (\<lambda>r. pad_row w r ! j) data)) [0..<w]\<rparr>))"

definition fetch_isc_frame :: "string list \<Rightarrow> error + frame" where
  "fetch_isc_frame lines =
     (case lines of
        [] \<Rightarrow> Inl (IndexError ''list index out of range'')
      | l # ls \<Rightarrow> data_frame (map split_bar ls) (split_bar l))"

section \<open>Normalization\<close>

text \<open>
  \<^verbatim>\<open>x[i]\<close> inside the \<^verbatim>\<open>apply\<close> of \<^verbatim>\<open>standardize_usgs_data\<close>: an element of a list, a
  character of a string, IndexError out of range, TypeError on anything else.
\<close>

fun subscript :: "nat \<Rightarrow> cell \<Rightarrow> error + cell" where
  "subscript i (Lst xs) =
     (if i < length xs then Inr (xs ! i) else Inl (IndexError ''list index out of range''))"
| "subscript i (Str s) =
     (if i < length s then Inr (Str [s ! i]) else Inl (IndexError ''string index out of range''))"
| "subscript i v = Inl (TypeError ''object is not subscriptable'')"

text \<open>
  One value under \<^verbatim>\<open>Series.astype(float)\<close>: a missing value stays missing, a number
  stays, a string goes through \<^verbatim>\<open>float()\<close>, whose ValueError aborts the conversion of
  the whole column.
\<close>

fun astype_float :: "extern \<Rightarrow> cell \<Rightarrow> error + cell" where
  "astype_float X Null = Inr Null"
| "astype_float X (Num x) = Inr (Num x)"
| "astype_float X (Str s) =
     (case py_float X s of None \<Rightarrow> Inl (ValueError s) | Some v \<Rightarrow> Inr v)"
| "astype_float X v = Inl (TypeError ''float() argument must be a string or a real number'')"

definition datetime_ms :: "extern \<Rightarrow> cell \<Rightarrow> error + cell" where
  "datetime_ms X v =
     (case to_datetime_ms X v of None \<Rightarrow> Inl (ValueError ''to_datetime'') | Some t \<Rightarrow> Inr t)"

definition datetime_str :: "extern \<Rightarrow> cell \<Rightarrow> error + cell" where
  "datetime_str X v =
     (case to_datetime X v of None \<Rightarrow> Inl (ValueError ''to_datetime'') | Some t \<Rightarrow> Inr t)"

text \<open>
  Each assignment \<^verbatim>\<open>df[new] = f(df[old])\<close> of the two \<^verbatim>\<open>standardize\<close> functions is one
  step on the caller's table: it reads a column (KeyError), converts it cell by cell
  (the first failing cell raises) and stores the result in the same table.
\<close>

definition assign :: "string \<Rightarrow> string \<Rightarrow> (cell \<Rightarrow> error + cell) \<Rightarrow> frame \<Rightarrow> error + frame" where
  "assign new old f df =
     bind_err (getitem df old) (\<lambda>c. bind_err (traverse f c) (\<lambda>c'. Inr (setitem df new c')))"

text \<open>
  The statements run in order on the table the caller passed; when one raises, the
  caller is left with the table as the earlier statements changed it.
\<close>

fun run_stmts :: "(frame \<Rightarrow> error + frame) list \<Rightarrow> frame \<Rightarrow> error option \<times> frame" where
  "run_stmts [] df = (None, df)"
| "run_stmts (s # ss) df =
     (case s df of Inl e \<Rightarrow> (Some e, df) | Inr df' \<Rightarrow> run_stmts ss df')"

definition canonical :: "string list" where
  "canonical = [''time'', ''magnitude'', ''longitude'', ''latitude'']"

text \<open>
  Both functions return a pair: the value of the \<^verbatim>\<open>return\<close> (or the exception) and the
  caller's table after the call.
\<close>

definition standardize_usgs_data :: "extern \<Rightarrow> frame \<Rightarrow> (error + frame) \<times> frame" where
  "standardize_usgs_data X usgs_data =
     (case run_stmts
             [assign ''time'' ''properties.time'' (datetime_ms X),
              assign ''magnitude'' ''properties.mag'' Inr,
              assign ''longitude'' ''geometry.coordinates'' (subscript 0),
              assign ''latitude'' ''geometry.coordinates'' (subscript 1)] usgs_data of
        (Some e, df) \<Rightarrow> (Inl e, df)
      | (None, df) \<Rightarrow> (select_cols df canonical, df))"

definition standardize_isc_data :: "extern \<Rightarrow> frame \<Rightarrow> (error + frame) \<times> frame" where
  "standardize_isc_data X isc_data =
     (case run_stmts
             [assign ''time'' ''Time'' (datetime_str X),
              assign ''magnitude'' ''Magnitude'' (astype_float X),
              assign ''longitude'' ''Longitude'' (astype_float X),
              assign ''latitude'' ''Latitude'' (astype_float X)] isc_data of
        (Some e, df) \<Rightarrow> (Inl e, df)
      | (None, df) \<Rightarrow> (select_cols df canonical, df))"

text \<open>
  Lines 205-207 of \<^verbatim>\<open>main\<close> (and 76-80 of the module): both raw tables are
  standardized, source A first, and the two results concatenated.
\<close>

definition combined_data :: "extern \<Rightarrow> frame \<Rightarrow> frame \<Rightarrow> error + frame" where
  "combined_data X usgs_data isc_data =
     bind_err (fst (standardize_usgs_data X usgs_data)) (\<lambda>usgs_data_clean.
     bind_err (fst (standardize_isc_data X isc_data)) (\<lambda>isc_data_clean.
     Inr (concat_frames usgs_data_clean isc_data_clean)))"

section \<open>The SQLite file\<close>

text \<open>
  The database file holds tables; a table has a name, its declared columns, its rows
  (one value per column) and the highest row id handed out so far, which
  \<^verbatim>\<open>AUTOINCREMENT\<close> never reuses. Column affinity is not modelled: a value is stored as
  it was bound.
\<close>

definition earthquakes_cols :: "(string \<times> string) list" where
  "earthquakes_cols =
     [(''id'', ''INTEGER PRIMARY KEY AUTOINCREMENT''),
      (''time'', ''TIMESTAMP''),
      (''magnitude'', ''FLOAT''),
      (''longitude'', ''FLOAT''),
      (''latitude'', ''FLOAT''),
      (''source'', ''TEXT'')]"

definition find_table :: "string \<Rightarrow> table list \<Rightarrow> table option" where
  "find_table name ts = find (\<lambda>t. tname t = name) ts"

text \<open>\<^verbatim>\<open>CREATE TABLE IF NOT EXISTS earthquakes (...)\<close>: only the name is looked at.\<close>

definition create_table_if_not_exists :: "table list \<Rightarrow> table list" where
  "create_table_if_not_exists ts =
     (case find_table ''earthquakes'' ts of
        Some t \<Rightarrow> ts
      | None \<Rightarrow> ts @ [\<lparr>tname = ''earthquakes'', tcols = earthquakes_cols, trows = [], tseq = 0\<rparr>])"

text \<open>
  Binding a parameter: sqlite3 takes \<^verbatim>\<open>None\<close>, \<^verbatim>\<open>int\<close>, \<^verbatim>\<open>float\<close> and \<^verbatim>\<open>str\<close> (a NaN is
  stored as NULL); its adapters are looked up by exact type, so a \<^verbatim>\<open>pandas.Timestamp\<close>,
  a \<^verbatim>\<open>NaT\<close> or a list is refused.
\<close>

fun bind_param :: "cell \<Rightarrow> error + sqlval" where
  "bind_param Null = Inr SNull"
| "bind_param (Str s) = Inr (SText s)"
| "bind_param (Num x) = Inr (SReal x)"
| "bind_param v = Inl (ProgrammingError ''Error binding parameter: type is not supported'')"

text \<open>
  \<^verbatim>\<open>INSERT INTO earthquakes (time, magnitude, longitude, latitude, source) VALUES
  (?, ?, ?, ?, ?)\<close>: the table and the five columns must exist; the new row takes the
  next row id in the column declared as the auto-incremented key, the five values in
  their columns and NULL elsewhere. The schema has no NOT NULL constraint.
\<close>

definition insert_cols :: "string list" where
  "insert_cols = [''time'', ''magnitude'', ''longitude'', ''latitude'', ''source'']"

definition new_row :: "table \<Rightarrow> sqlval list \<Rightarrow> sqlval list" where
  "new_row t vs =
     map (\<lambda>(c, decl).
            case map_of (zip insert_cols vs) c of
              Some v \<Rightarrow> v
            | None \<Rightarrow>
                if decl = ''INTEGER PRIMARY KEY AUTOINCREMENT'' then SInt (int (Suc (tseq t)))
                else SNull)
         (tcols t)"

definition insert_row :: "table list \<Rightarrow> sqlval list \<Rightarrow> error + table list" where
  "insert_row ts vs =
     (case find_table ''earthquakes'' ts of
        None \<Rightarrow> Inl (OperationalError ''no such table: earthquakes'')
      | Some t \<Rightarrow>
          (case filter (\<lambda>c. c \<notin> set (map fst (tcols t))) insert_cols of
             c # _ \<Rightarrow> Inl (OperationalError (''table earthquakes has no column named '' @ c))
           | [] \<Rightarrow>
               Inr (map (\<lambda>u. if tname u = ''earthquakes''
                              then u\<lparr>trows := trows u @ [new_row u vs], tseq := Suc (tseq u)\<rparr>
                              else u) ts)))"

section \<open>Running the script: state and effects\<close>

text \<open>
  The state is the committed content of \<^verbatim>\<open>seismological_data.db\<close>, the uncommitted
  view of the open connection if it has written, and the effects so far in order:
  HTTP requests, statements sent to SQLite, commits, prints, the plot.
\<close>

datatype printed =
    Text string
  | Table frame
  | Counts "(string \<times> nat) list"
  | Row_error row error

datatype event =
    Get string
  | Connect
  | Execute string
  | Commit
  | Close
  | Print printed
  | Plot

record state =
  disk :: "table list"
  txn :: "table list option"
  trace :: "event list"

type_synonym 'a prog = "state \<Rightarrow> (error + 'a) \<times> state"

definition ret :: "'a \<Rightarrow> 'a prog" where
  "ret x st = (Inr x, st)"

definition lift :: "error + 'a \<Rightarrow> 'a prog" where
  "lift r st = (r, st)"

definition bnd :: "'a prog \<Rightarrow> ('a \<Rightarrow> 'b prog) \<Rightarrow> 'b prog" where
  "bnd m f st = (case m st of (Inl e, st') \<Rightarrow> (Inl e, st') | (Inr x, st') \<Rightarrow> f x st')"

definition emit :: "event \<Rightarrow> unit prog" where
  "emit ev st = (Inr (), st\<lparr>trace := trace st @ [ev]\<rparr>)"

definition usgs_url :: string where
  "usgs_url = ''https://earthquake.usgs.gov/fdsnws/event/1/query''"

definition isc_url :: string where
  "isc_url = ''http://isc-mirror.iris.washington.edu/fdsnws/event/1/query''"

definition fetch_usgs_data :: "extern \<Rightarrow> string \<Rightarrow> string \<Rightarrow> real \<Rightarrow> frame prog" where
  "fetch_usgs_data X start_time end_time min_magnitude =
     bnd (emit (Get usgs_url)) (\<lambda>_.
     lift (bind_err (usgs_reply X start_time end_time min_magnitude)
             (\<lambda>features. Inr (json_normalize features))))"

definition fetch_isc_data :: "extern \<Rightarrow> string \<Rightarrow> string \<Rightarrow> real \<Rightarrow> frame prog" where
  "fetch_isc_data X start_time end_time min_magnitude =
     bnd (emit (Get isc_url)) (\<lambda>_.
     lift (bind_err (isc_reply X start_time end_time min_magnitude) fetch_isc_frame))"

text \<open>
  The connection: a statement sees the uncommitted view if there is one; an INSERT
  opens a transaction, \<^verbatim>\<open>commit\<close> makes the view the file's content, \<^verbatim>\<open>close\<close> (and the
  end of the process) drops an uncommitted view. CREATE TABLE outside a transaction
  is committed at once.
\<close>

definition view :: "state \<Rightarrow> table list" where
  "view st = (case txn st of None \<Rightarrow> disk st | Some ts \<Rightarrow> ts)"

definition connect :: "unit prog" where
  "connect = emit Connect"

definition commit :: "unit prog" where
  "commit = bnd (emit Commit) (\<lambda>_ st. (Inr (), st\<lparr>disk := view st, txn := None\<rparr>))"

definition close :: "unit prog" where
  "close = bnd (emit Close) (\<lambda>_ st. (Inr (), st\<lparr>txn := None\<rparr>))"

definition create_sql :: string where
  "create_sql = ''CREATE TABLE IF NOT EXISTS earthquakes (id INTEGER PRIMARY KEY AUTOINCREMENT, time TIMESTAMP, magnitude FLOAT, longitude FLOAT, latitude FLOAT, source TEXT)''"

definition insert_sql :: string where
  "insert_sql = ''INSERT INTO earthquakes (time, magnitude, longitude, latitude, source) VALUES (?, ?, ?, ?, ?)''"

definition exec_create :: "unit prog" where
  "exec_create =
     bnd (emit (Execute create_sql)) (\<lambda>_ st.
       (Inr (), case txn st of
                  None \<Rightarrow> st\<lparr>disk := create_table_if_not_exists (disk st)\<rparr>
                | Some ts \<Rightarrow> st\<lparr>txn := Some (create_table_if_not_exists ts)\<rparr>))"

text \<open>
  \<^verbatim>\<open>cursor.execute(INSERT, (p1, ..., p5))\<close>: the tuple is evaluated first and may raise
  before anything is sent; then the parameters are bound and the row is inserted. A
  failing statement leaves the tables as they were.
\<close>

definition exec_insert :: "error + cell list \<Rightarrow> unit prog" where
  "exec_insert params =
     bnd (lift params) (\<lambda>ps.
     bnd (emit (Execute insert_sql)) (\<lambda>_ st.
       (case bind_err (traverse bind_param ps) (insert_row (view st)) of
          Inl e \<Rightarrow> (Inl e, st)
        | Inr ts \<Rightarrow> (Inr (), st\<lparr>txn := Some ts\<rparr>))))"

definition exec_select :: "extern \<Rightarrow> string \<Rightarrow> sqlval list list prog" where
  "exec_select X sql =
     bnd (emit (Execute sql)) (\<lambda>_ st. (sqlite_select X sql (view st), st))"

text \<open>\<^verbatim>\<open>for _, row in df.iterrows(): body\<close>: an exception in the body leaves the loop.\<close>

fun for_each :: "('a \<Rightarrow> unit prog) \<Rightarrow> 'a list \<Rightarrow> unit prog" where
  "for_each body [] = ret ()"
| "for_each body (r # rs) = bnd (body r) (\<lambda>_. for_each body rs)"

text \<open>
  \<^verbatim>\<open>try: body  except Exception as e: print(row); print(e)\<close> of the ISC loop: the
  exception is printed and the statement ends normally.
\<close>

definition try_except :: "row \<Rightarrow> unit prog \<Rightarrow> unit prog" where
  "try_except r body st =
     (case body st of
        (Inl e, st') \<Rightarrow> emit (Print (Row_error r e)) st'
      | (Inr u, st') \<Rightarrow> (Inr u, st'))"

text \<open>\<^verbatim>\<open>v.isoformat()\<close>: a Timestamp and NaT have the method, other values do not.\<close>

fun isoformat :: "cell \<Rightarrow> error + cell" where
  "isoformat (Ts s) = Inr (Str s)"
| "isoformat NaT = Inr (Str ''NaT'')"
| "isoformat v = Inl (AttributeError ''object has no attribute isoformat'')"

text \<open>The parameter tuples of the three INSERT statements, evaluated left to right.\<close>

definition tagged_params :: "string \<Rightarrow> row \<Rightarrow> error + cell list" where
  "tagged_params tag r =
     bind_err (row_getitem r ''time'') (\<lambda>t.
     bind_err (isoformat t) (\<lambda>iso.
     bind_err (row_getitem r ''magnitude'') (\<lambda>m.
     bind_err (row_getitem r ''longitude'') (\<lambda>lon.
     bind_err (row_getitem r ''latitude'') (\<lambda>lat.
     Inr [iso, m, lon, lat, Str tag])))))"

definition main_params :: "row \<Rightarrow> error + cell list" where
  "main_params r =
     bind_err (row_getitem r ''time'') (\<lambda>t.
     bind_err (row_getitem r ''magnitude'') (\<lambda>m.
     bind_err (row_getitem r ''longitude'') (\<lambda>lon.
     bind_err (row_getitem r ''latitude'') (\<lambda>lat.
     Inr [t, m, lon, lat, row_get r ''source'' (Str ''Unknown'')]))))"

text \<open>The three insert loops of the source: lines 116-120, 136-144 and 212-216.\<close>

definition insert_usgs :: "frame \<Rightarrow> unit prog" where
  "insert_usgs usgs_data_clean =
     for_each (\<lambda>r. exec_insert (tagged_params ''USGS'' r)) (iterrows usgs_data_clean)"

definition insert_isc :: "frame \<Rightarrow> unit prog" where
  "insert_isc isc_data_clean =
     for_each (\<lambda>r. try_except r (exec_insert (tagged_params ''ISC'' r))) (iterrows isc_data_clean)"

definition insert_combined :: "frame \<Rightarrow> unit prog" where
  "insert_combined combined =
     for_each (\<lambda>r. exec_insert (main_params r)) (iterrows combined)"

text \<open>
  \<^verbatim>\<open>pd.DataFrame(results, columns=[...])\<close> on the tuples \<^verbatim>\<open>fetchall()\<close> returned: pandas
  raises unless every tuple has as many fields as there are labels.
\<close>

fun cell_of :: "sqlval \<Rightarrow> cell" where
  "cell_of SNull = Null"
| "cell_of (SInt i) = Num (real_of_int i)"
| "cell_of (SReal x) = Num x"
| "cell_of (SText s) = Str s"

definition result_cols :: "string list" where
  "result_cols = [''id'', ''time'', ''magnitude'', ''longitude'', ''latitude'', ''source'']"

definition records_frame :: "sqlval list list \<Rightarrow> string list \<Rightarrow> error + frame" where
  "records_frame results names =
     (if results = [] then Inr \<lparr>nrows = 0, cols = map (\<lambda>h. (h, [])) names\<rparr>
      else if \<exists>r \<in> set results. length r \<noteq> length names
      then Inl (ValueError ''columns passed, passed data had other columns'')
      else Inr \<lparr>nrows = length results,
                cols = map (\<lambda>j. (names ! j, map (\<lambda>r. cell_of (r ! j)) results))
                         [0..<length names]\<rparr>)"

section \<open>The command-line entry point and the module-level cells\<close>

record args =
  arg_fetch :: bool
  arg_query :: "string option"

text \<open>
  \<^verbatim>\<open>main()\<close> after \<^verbatim>\<open>parse_args\<close>. \<^verbatim>\<open>elif args.query:\<close> tests the truth value of the
  option: absent (\<^verbatim>\<open>None\<close>) and the empty string are both false.
\<close>

definition select_where :: "string \<Rightarrow> string" where
  "select_where p = ''SELECT * FROM earthquakes WHERE '' @ p"

definition run_query :: "extern \<Rightarrow> string \<Rightarrow> unit prog" where
  "run_query X p =
     bnd connect (\<lambda>_.
     bnd (exec_select X (select_where p)) (\<lambda>results.
     bnd (lift (records_frame results result_cols)) (\<lambda>query_results.
     bnd (emit (Print (Table query_results))) (\<lambda>_.
     close))))"

definition main :: "extern \<Rightarrow> args \<Rightarrow> unit prog" where
  "main X a =
     (if arg_fetch a then
        bnd (fetch_usgs_data X ''2023-01-01'' ''2023-12-31'' 5) (\<lambda>usgs_data.
        bnd (fetch_isc_data X ''2023-01-01'' ''2023-12-31'' 5) (\<lambda>isc_data.
        bnd (lift (combined_data X usgs_data isc_data)) (\<lambda>combined.
        bnd connect (\<lambda>_.
        bnd (insert_combined combined) (\<lambda>_.
        bnd commit (\<lambda>_.
        bnd close (\<lambda>_.
        emit (Print (Text ''Data fetched and stored successfully.'')))))))))
      else
        (case arg_query a of
           None \<Rightarrow> ret ()
         | Some p \<Rightarrow> if p \<noteq> [] then run_query X p else ret ()))"

text \<open>
  The cells of the file above \<^verbatim>\<open>main\<close> are module-level code: Python runs them, in
  order, every time the file is executed, before the last line calls \<^verbatim>\<open>main()\<close>.
\<close>

definition script :: "extern \<Rightarrow> args \<Rightarrow> unit prog" where
  "script X a =
     bnd (fetch_usgs_data X ''2023-01-01'' ''2023-12-31'' 5) (\<lambda>usgs_data.
     bnd (emit (Print (Table (head_frame usgs_data)))) (\<lambda>_.
     bnd (fetch_isc_data X ''2023-01-01'' ''2023-12-31'' 5) (\<lambda>isc_data.
     bnd (emit (Print (Table (head_frame isc_data)))) (\<lambda>_.
     bnd (lift (fst (standardize_usgs_data X usgs_data))) (\<lambda>usgs_data_clean.
     bnd (lift (fst (standardize_isc_data X isc_data))) (\<lambda>isc_data_clean.
     bnd (ret (concat_frames usgs_data_clean isc_data_clean)) (\<lambda>combined.
     bnd (emit (Print (Table (head_frame combined)))) (\<lambda>_.
     bnd connect (\<lambda>_.
     bnd exec_create (\<lambda>_.
     bnd (insert_usgs usgs_data_clean) (\<lambda>_.
     bnd (lift (dropna isc_data_clean [''magnitude'', ''longitude'', ''latitude''])) (\<lambda>isc_data_clean.
     bnd (emit (Print (Counts (isna_sum isc_data_clean)))) (\<lambda>_.
     bnd (insert_isc isc_data_clean) (\<lambda>_.
     bnd commit (\<lambda>_.
     bnd close (\<lambda>_.
     bnd connect (\<lambda>_.
     bnd (exec_select X (select_where ''magnitude > 6.0'')) (\<lambda>results.
     bnd (lift (records_frame results result_cols)) (\<lambda>high_magnitude_quakes.
     bnd (emit (Print (Table high_magnitude_quakes))) (\<lambda>_.
     bnd close (\<lambda>_.
     bnd (emit Plot) (\<lambda>_.
     main X a))))))))))))))))))))))"

text \<open>
  One run of the program on a database file: the exception it ends with, if any, the
  file afterwards (what was not committed is lost) and the effects.
\<close>

definition run :: "extern \<Rightarrow> args \<Rightarrow> table list \<Rightarrow> error option \<times> table list \<times> event list" where
  "run X a db =
     (case script X a \<lparr>disk = db, txn = None, trace = []\<rparr> of
        (Inl e, st) \<Rightarrow> (Some e, disk st, trace st)
      | (Inr u, st) \<Rightarrow> (None, disk st, trace st))"

section \<open>A sample run\<close>

text \<open>
  One event from each catalogue, the one of source A later than the one of source B,
  and library functions that know just these values. \<open>demo_select\<close> answers the one
  statement of the query cell.
\<close>

definition demo_features :: "feature list" where
  "demo_features =
     [[(''properties.time'', Num 1682985600000), (''properties.mag'', Num 6.2),
       (''geometry.coordinates'', Lst [Num (- 120.1), Num 35, Num 10])]]"

definition demo_lines :: "string list" where
  "demo_lines = [''Time|Magnitude|Longitude|Latitude'', ''2023-05-01T00:00:00|5.1|140.0|36.0'']"

definition demo_select :: "string \<Rightarrow> table list \<Rightarrow> error + sqlval list list" where
  "demo_select sql ts =
     (if sql = ''SELECT * FROM earthquakes WHERE magnitude > 6.0'' then
        (case find_table ''earthquakes'' ts of
           None \<Rightarrow> Inl (OperationalError ''no such table: earthquakes'')
         | Some t \<Rightarrow> Inr (filter (\<lambda>r. case r ! 2 of SReal x \<Rightarrow> 6 < x | _ \<Rightarrow> False) (trows t)))
      else Inl (OperationalError ''syntax error''))"

definition demo :: extern where
  "demo =
     \<lparr>usgs_reply = (\<lambda>s e m. Inr demo_features),
      isc_reply = (\<lambda>s e m. Inr demo_lines),
      py_float = (\<lambda>s. if s = ''5.1'' then Some (Num 5.1)
                       else if s = ''140.0'' then Some (Num 140)
                       else if s = ''36.0'' then Some (Num 36)
                       else if s = ''nan'' then Some Null else None),
      to_datetime_ms = (\<lambda>v. if v = Num 1682985600000 then Some (Ts ''2023-05-02T00:00:00'')
                             else if v = Null then Some NaT else None),
      to_datetime = (\<lambda>v. if v = Str ''2023-05-01T00:00:00'' then Some (Ts ''2023-05-01T00:00:00'')
                          else if v = Null then Some NaT else None),
      sqlite_select = demo_select\<rparr>"

definition demo_usgs_frame :: frame where
  "demo_usgs_frame =
     \<lparr>nrows = 1,
      cols = [(''properties.time'', [Num 1682985600000]), (''properties.mag'', [Num 6.2]),
              (''geometry.coordinates'', [Lst [Num (- 120.1), Num 35, Num 10]])]\<rparr>"

definition demo_isc_frame :: frame where
  "demo_isc_frame =
     \<lparr>nrows = 1,
      cols = [(''Time'', [Str ''2023-05-01T00:00:00'']), (''Magnitude'', [Str ''5.1'']),
              (''Longitude'', [Str ''140.0'']), (''Latitude'', [Str ''36.0''])]\<rparr>"

definition demo_usgs_clean :: frame where
  "demo_usgs_clean =
     \<lparr>nrows = 1,
      cols = [(''time'', [Ts ''2023-05-02T00:00:00'']), (''magnitude'', [Num 6.2]),
              (''longitude'', [Num (- 120.1)]), (''latitude'', [Num 35])]\<rparr>"

definition demo_isc_clean :: frame where
  "demo_isc_clean =
     \<lparr>nrows = 1,
      cols = [(''time'', [Ts ''2023-05-01T00:00:00'']), (''magnitude'', [Num 5.1]),
              (''longitude'', [Num 140]), (''latitude'', [Num 36])]\<rparr>"

definition no_flags :: args where
  "no_flags = \<lparr>arg_fetch = False, arg_query = None\<rparr>"

definition fetch_flag :: args where
  "fetch_flag = \<lparr>arg_fetch = True, arg_query = None\<rparr>"

text \<open>
  Further inputs: both feeds empty; a source-A feature without magnitude; a database
  file that already holds the table with one row, beside another table; a source-B
  line with an unparseable magnitude, and one cut short after its first field.
\<close>

definition header_only :: "string list" where
  "header_only = [''Time|Magnitude|Longitude|Latitude'']"

definition empty_feeds :: extern where
  "empty_feeds = demo\<lparr>usgs_reply := (\<lambda>s e m. Inr []), isc_reply := (\<lambda>s e m. Inr header_only)\<rparr>"

definition null_mag_features :: "feature list" where
  "null_mag_features =
     [[(''properties.time'', Num 1682985600000), (''properties.mag'', Null),
       (''geometry.coordinates'', Lst [Num (- 120.1), Num 35, Num 10])]]"

definition null_mag_feed :: extern where
  "null_mag_feed = demo\<lparr>usgs_reply := (\<lambda>s e m. Inr null_mag_features)\<rparr>"

definition empty_db :: "table list" where
  "empty_db = [\<lparr>tname = ''earthquakes'', tcols = earthquakes_cols, trows = [], tseq = 0\<rparr>]"








section \<open>Basic facts about tables\<close>

lemma map_of_set_col: "map_of (set_col n c ps) = (map_of ps)(n \<mapsto> c)"
  by (induction ps) auto

lemma getitem_setitem:
  "getitem (setitem df n c) m = (if m = n then Inr c else getitem df m)"
  by (simp add: getitem_def setitem_def map_of_set_col)

lemma nrows_setitem: "nrows (setitem df n c) = nrows df"
  by (simp add: setitem_def)

lemma getitem_literal:
  "getitem \<lparr>nrows = k, cols = cs\<rparr> n =
     (case map_of cs n of None \<Rightarrow> Inl (KeyError n) | Some c \<Rightarrow> Inr c)"
  by (simp add: getitem_def)

lemma getitem_wf_length:
  assumes "wf_frame df" and "getitem df n = Inr c"
  shows "length c = nrows df"
proof -
  from assms(2) have "map_of (cols df) n = Some c"
    by (simp add: getitem_def split: option.splits)
  then have "(n, c) \<in> set (cols df)" by (rule map_of_SomeD)
  with assms(1) show ?thesis by (fastforce simp: wf_frame_def)
qed

text \<open>
  What the fetch functions return is well formed: \<^verbatim>\<open>json_normalize\<close> always, the table
  of source B as soon as the header line has no repeated label.
\<close>

lemma json_normalize_wf: "wf_frame (json_normalize fs)"
  by (simp add: json_normalize_def wf_frame_def comp_def)

lemma data_frame_wf:
  assumes "distinct headers" and "data_frame data headers = Inr df"
  shows "wf_frame df"
proof (cases "data = []")
  case True
  with assms show ?thesis
    by (auto simp: data_frame_def wf_frame_def comp_def)
next
  case False
  with assms have w: "foldr max (map length data) 0 = length headers"
    and df: "df = \<lparr>nrows = length data,
                    cols = map (\<lambda>j. (headers ! j,
                                      map (\<lambda>r. pad_row (length headers) r ! j) data))
                             [0..<length headers]\<rparr>"
    by (auto simp: data_frame_def Let_def split: if_splits)
  have "map fst (cols df) = headers"
    by (simp add: df comp_def map_nth)
  with assms(1) show ?thesis
    by (auto simp: wf_frame_def df)
qed

lemma traverse_length: "traverse f xs = Inr ys \<Longrightarrow> length ys = length xs"
  by (induction xs arbitrary: ys) (auto split: sum.splits)

lemma traverse_nth:
  "traverse f xs = Inr ys \<Longrightarrow> i < length xs \<Longrightarrow> f (xs ! i) = Inr (ys ! i)"
proof (induction xs arbitrary: ys i)
  case Nil
  then show ?case by simp
next
  case (Cons x xs)
  then show ?case by (cases i) (auto split: sum.splits)
qed


lemma traverse_Inr_id: "traverse Inr xs = Inr xs"
  by (induction xs) auto

lemma assign_Inr:
  "assign new old f df = Inr df' \<longleftrightarrow>
     (\<exists>c c'. getitem df old = Inr c \<and> traverse f c = Inr c' \<and> df' = setitem df new c')"
  by (auto simp: assign_def bind_err_def split: sum.splits)

text \<open>What a normal return of either function says about its input and its two results.\<close>

lemma standardize_isc_Inr:
  assumes "standardize_isc_data X df = (Inr out, df')"
  shows "\<exists>ct cm clo cla t m lo la.
           getitem df ''Time'' = Inr ct \<and> traverse (datetime_str X) ct = Inr t \<and>
           getitem df ''Magnitude'' = Inr cm \<and> traverse (astype_float X) cm = Inr m \<and>
           getitem df ''Longitude'' = Inr clo \<and> traverse (astype_float X) clo = Inr lo \<and>
           getitem df ''Latitude'' = Inr cla \<and> traverse (astype_float X) cla = Inr la \<and>
           df' = setitem (setitem (setitem (setitem df ''time'' t) ''magnitude'' m)
                   ''longitude'' lo) ''latitude'' la \<and>
           out = \<lparr>nrows = nrows df,
                  cols = [(''time'', t), (''magnitude'', m), (''longitude'', lo), (''latitude'', la)]\<rparr>"
  using assms
  apply (simp add: standardize_isc_data_def split: sum.splits prod.splits option.splits)
  apply (auto simp: assign_Inr getitem_setitem select_cols_def canonical_def bind_err_def
      nrows_setitem split: sum.splits)
  done

lemma standardize_usgs_Inr:
  assumes "standardize_usgs_data X df = (Inr out, df')"
  shows "\<exists>ct cg t m lo la.
           getitem df ''properties.time'' = Inr ct \<and> traverse (datetime_ms X) ct = Inr t \<and>
           getitem df ''properties.mag'' = Inr m \<and>
           getitem df ''geometry.coordinates'' = Inr cg \<and>
           traverse (subscript 0) cg = Inr lo \<and> traverse (subscript 1) cg = Inr la \<and>
           df' = setitem (setitem (setitem (setitem df ''time'' t) ''magnitude'' m)
                   ''longitude'' lo) ''latitude'' la \<and>
           out = \<lparr>nrows = nrows df,
                  cols = [(''time'', t), (''magnitude'', m), (''longitude'', lo), (''latitude'', la)]\<rparr>"
  using assms
  apply (simp add: standardize_usgs_data_def split: sum.splits prod.splits option.splits)
  apply (auto simp: assign_Inr getitem_setitem select_cols_def canonical_def bind_err_def
      nrows_setitem traverse_Inr_id split: sum.splits)
  done

lemma demo_usgs_run:
  "standardize_usgs_data demo demo_usgs_frame =
     (Inr demo_usgs_clean,
      \<lparr>nrows = 1,
       cols = [(''properties.time'', [Num 1682985600000]), (''properties.mag'', [Num 6.2]),
               (''geometry.coordinates'', [Lst [Num (- 120.1), Num 35, Num 10]]),
               (''time'', [Ts ''2023-05-02T00:00:00'']), (''magnitude'', [Num 6.2]),
               (''longitude'', [Num (- 120.1)]), (''latitude'', [Num 35])]\<rparr>)"
  by (simp add: standardize_usgs_data_def demo_usgs_frame_def demo_usgs_clean_def demo_def
      assign_def getitem_def setitem_def bind_err_def datetime_ms_def select_cols_def canonical_def)

lemma demo_isc_run:
  "standardize_isc_data demo demo_isc_frame =
     (Inr demo_isc_clean,
      \<lparr>nrows = 1,
       cols = [(''Time'', [Str ''2023-05-01T00:00:00'']), (''Magnitude'', [Str ''5.1'']),
               (''Longitude'', [Str ''140.0'']), (''Latitude'', [Str ''36.0'']),
               (''time'', [Ts ''2023-05-01T00:00:00'']), (''magnitude'', [Num 5.1]),
               (''longitude'', [Num 140]), (''latitude'', [Num 36])]\<rparr>)"
  by (simp add: standardize_isc_data_def demo_isc_frame_def demo_isc_clean_def demo_def
      assign_def getitem_def setitem_def bind_err_def datetime_str_def select_cols_def canonical_def)

lemma demo_fetched:
  "json_normalize demo_features = demo_usgs_frame"
  "fetch_isc_frame demo_lines = Inr demo_isc_frame"
  by (simp_all add: json_normalize_def demo_features_def demo_usgs_frame_def fetch_isc_frame_def
      demo_lines_def demo_isc_frame_def data_frame_def pad_row_def)

section \<open>Claims\<close>

text \<open>
  C10. Both normalization functions change the table they are given. Whenever
  \<^verbatim>\<open>standardize_usgs_data\<close> or \<^verbatim>\<open>standardize_isc_data\<close> returns, the caller's own table has
  the columns time, magnitude, longitude and latitude, holding the very columns of the
  returned projection; its other columns and its row count are as before; it differs
  from the table passed in as soon as that one lacked one of the four labels; and for
  source B the three numeric columns are the float conversion of the raw text columns.
\<close>

theorem standardize_writes_into_callers_table:
  "(standardize_usgs_data X dfa = (Inr outa, dfa') \<longrightarrow>
      nrows dfa' = nrows dfa \<and> columns outa = canonical \<and>
      (\<forall>n \<in> set canonical. \<exists>c. getitem dfa' n = Inr c \<and> getitem outa n = Inr c) \<and>
      (\<forall>n. n \<notin> set canonical \<longrightarrow> getitem dfa' n = getitem dfa n) \<and>
      (\<not> set canonical \<subseteq> set (columns dfa) \<longrightarrow> dfa' \<noteq> dfa)) \<and>
   (standardize_isc_data X dfb = (Inr outb, dfb') \<longrightarrow>
      nrows dfb' = nrows dfb \<and> columns outb = canonical \<and>
      (\<forall>n \<in> set canonical. \<exists>c. getitem dfb' n = Inr c \<and> getitem outb n = Inr c) \<and>
      (\<forall>n. n \<notin> set canonical \<longrightarrow> getitem dfb' n = getitem dfb n) \<and>
      (\<not> set canonical \<subseteq> set (columns dfb) \<longrightarrow> dfb' \<noteq> dfb) \<and>
      getitem dfb' ''magnitude'' = bind_err (getitem dfb ''Magnitude'') (traverse (astype_float X)) \<and>
      getitem dfb' ''longitude'' = bind_err (getitem dfb ''Longitude'') (traverse (astype_float X)) \<and>
      getitem dfb' ''latitude'' = bind_err (getitem dfb ''Latitude'') (traverse (astype_float X)))"
proof (intro conjI impI)
  assume a: "standardize_usgs_data X dfa = (Inr outa, dfa')"
  from standardize_usgs_Inr [OF a] obtain t m lo la where
    df': "dfa' = setitem (setitem (setitem (setitem dfa ''time'' t) ''magnitude'' m)
                   ''longitude'' lo) ''latitude'' la"
    and out: "outa = \<lparr>nrows = nrows dfa,
                cols = [(''time'', t), (''magnitude'', m), (''longitude'', lo), (''latitude'', la)]\<rparr>"
    by blast
  show "nrows dfa' = nrows dfa" by (simp add: df' nrows_setitem)
  show "columns outa = canonical" by (simp add: out columns_def canonical_def)
  show g: "\<forall>n \<in> set canonical. \<exists>c. getitem dfa' n = Inr c \<and> getitem outa n = Inr c"
    by (simp add: df' out canonical_def getitem_setitem getitem_literal)
  show "\<forall>n. n \<notin> set canonical \<longrightarrow> getitem dfa' n = getitem dfa n"
    by (simp add: df' canonical_def getitem_setitem)
  show "dfa' \<noteq> dfa" if "\<not> set canonical \<subseteq> set (columns dfa)"
  proof -
    from that obtain n where n: "n \<in> set canonical" "n \<notin> set (columns dfa)" by blast
    then have "map_of (cols dfa) n = None" by (simp add: columns_def map_of_eq_None_iff)
    then have "getitem dfa n = Inl (KeyError n)" by (simp add: getitem_def)
    with g n show ?thesis by fastforce
  qed
next
  assume a: "standardize_isc_data X dfb = (Inr outb, dfb')"
  from standardize_isc_Inr [OF a] obtain cm clo cla t m lo la where
    src: "getitem dfb ''Magnitude'' = Inr cm" "traverse (astype_float X) cm = Inr m"
         "getitem dfb ''Longitude'' = Inr clo" "traverse (astype_float X) clo = Inr lo"
         "getitem dfb ''Latitude'' = Inr cla" "traverse (astype_float X) cla = Inr la"
    and df': "dfb' = setitem (setitem (setitem (setitem dfb ''time'' t) ''magnitude'' m)
                   ''longitude'' lo) ''latitude'' la"
    and out: "outb = \<lparr>nrows = nrows dfb,
                cols = [(''time'', t), (''magnitude'', m), (''longitude'', lo), (''latitude'', la)]\<rparr>"
    by blast
  show "nrows dfb' = nrows dfb" by (simp add: df' nrows_setitem)
  show "columns outb = canonical" by (simp add: out columns_def canonical_def)
  show g: "\<forall>n \<in> set canonical. \<exists>c. getitem dfb' n = Inr c \<and> getitem outb n = Inr c"
    by (simp add: df' out canonical_def getitem_setitem getitem_literal)
  show "\<forall>n. n \<notin> set canonical \<longrightarrow> getitem dfb' n = getitem dfb n"
    by (simp add: df' canonical_def getitem_setitem)
  show "dfb' \<noteq> dfb" if "\<not> set canonical \<subseteq> set (columns dfb)"
  proof -
    from that obtain n where n: "n \<in> set canonical" "n \<notin> set (columns dfb)" by blast
    then have "map_of (cols dfb) n = None" by (simp add: columns_def map_of_eq_None_iff)
    then have "getitem dfb n = Inl (KeyError n)" by (simp add: getitem_def)
    with g n show ?thesis by fastforce
  qed
  show "getitem dfb' ''magnitude'' = bind_err (getitem dfb ''Magnitude'') (traverse (astype_float X))"
    by (simp add: df' getitem_setitem src bind_err_def)
  show "getitem dfb' ''longitude'' = bind_err (getitem dfb ''Longitude'') (traverse (astype_float X))"
    by (simp add: df' getitem_setitem src bind_err_def)
  show "getitem dfb' ''latitude'' = bind_err (getitem dfb ''Latitude'') (traverse (astype_float X))"
    by (simp add: df' getitem_setitem src bind_err_def)
qed

theorem standardize_writes_into_callers_table_witness:
  "standardize_usgs_data demo demo_usgs_frame =
     (Inr demo_usgs_clean, snd (standardize_usgs_data demo demo_usgs_frame)) \<and>
   standardize_isc_data demo demo_isc_frame =
     (Inr demo_isc_clean, snd (standardize_isc_data demo demo_isc_frame)) \<and>
   \<not> set canonical \<subseteq> set (columns demo_usgs_frame) \<and>
   \<not> set canonical \<subseteq> set (columns demo_isc_frame) \<and>
   snd (standardize_usgs_data demo demo_usgs_frame) \<noteq> demo_usgs_frame \<and>
   snd (standardize_isc_data demo demo_isc_frame) \<noteq> demo_isc_frame \<and>
   ''magnitude'' \<in> set canonical \<and> ''Magnitude'' \<notin> set canonical \<and>
   getitem (snd (standardize_isc_data demo demo_isc_frame)) ''magnitude'' = Inr [Num 5.1] \<and>
   getitem (snd (standardize_isc_data demo demo_isc_frame)) ''Magnitude'' = Inr [Str ''5.1'']"
proof -
  have a: "standardize_usgs_data demo demo_usgs_frame =
             (Inr demo_usgs_clean, snd (standardize_usgs_data demo demo_usgs_frame))"
    by (simp add: demo_usgs_run)
  have b: "standardize_isc_data demo demo_isc_frame =
             (Inr demo_isc_clean, snd (standardize_isc_data demo demo_isc_frame))"
    by (simp add: demo_isc_run)
  have c: "\<not> set canonical \<subseteq> set (columns demo_usgs_frame)"
          "\<not> set canonical \<subseteq> set (columns demo_isc_frame)"
    by (simp_all add: canonical_def columns_def demo_usgs_frame_def demo_isc_frame_def)
  have d: "''magnitude'' \<in> set canonical" "''Magnitude'' \<notin> set canonical"
    by (simp_all add: canonical_def)
  have e: "getitem demo_isc_frame ''Magnitude'' = Inr [Str ''5.1'']"
    by (simp add: getitem_def demo_isc_frame_def)
  have f: "getitem (snd (standardize_isc_data demo demo_isc_frame)) ''magnitude'' = Inr [Num 5.1]"
    by (simp add: demo_isc_run getitem_def)
  from standardize_writes_into_callers_table
         [of demo demo_usgs_frame demo_usgs_clean "snd (standardize_usgs_data demo demo_usgs_frame)"
             demo_isc_frame demo_isc_clean "snd (standardize_isc_data demo demo_isc_frame)"]
       a b c d e f
  show ?thesis by simp
qed


subsection \<open>Rows of a concatenation\<close>

lemma wf_lookup:
  assumes "wf_frame df" and "(n, c) \<in> set (cols df)"
  shows "map_of (cols df) n = Some c" and "length c = nrows df"
  using assms by (auto simp: wf_frame_def)

lemma col_or_nulls_length:
  assumes "wf_frame df"
  shows "length (col_or_nulls df n) = nrows df"
proof (cases "map_of (cols df) n")
  case None
  then show ?thesis by (simp add: col_or_nulls_def)
next
  case (Some c)
  then have "(n, c) \<in> set (cols df)" by (rule map_of_SomeD)
  with assms Some show ?thesis by (simp add: col_or_nulls_def wf_lookup(2))
qed

lemma col_or_nulls_member:
  assumes "wf_frame df" and "(n, c) \<in> set (cols df)"
  shows "col_or_nulls df n = c"
  using wf_lookup(1) [OF assms] by (simp add: col_or_nulls_def)

lemma concat_same_columns:
  assumes "columns a = columns b"
  shows "cols (concat_frames a b) = map (\<lambda>n. (n, col_or_nulls a n @ col_or_nulls b n)) (columns a)"
  using assms by (simp add: concat_frames_def)

lemma row_at_concat_left:
  assumes "wf_frame a" and "columns a = columns b" and "i < nrows a"
  shows "row_at (concat_frames a b) i = row_at a i"
proof -
  have "row_at (concat_frames a b) i =
          map (\<lambda>p. (fst p, (col_or_nulls a (fst p) @ col_or_nulls b (fst p)) ! i)) (cols a)"
    by (simp add: row_at_def concat_same_columns [OF assms(2)] columns_def comp_def)
  also have "\<dots> = map (\<lambda>p. (fst p, snd p ! i)) (cols a)"
  proof (rule map_cong [OF refl])
    fix p assume p: "p \<in> set (cols a)"
    then have "(fst p, snd p) \<in> set (cols a)" by simp
    from col_or_nulls_member [OF assms(1) this] wf_lookup(2) [OF assms(1) this] assms(3)
    show "(fst p, (col_or_nulls a (fst p) @ col_or_nulls b (fst p)) ! i) = (fst p, snd p ! i)"
      by (simp add: nth_append)
  qed
  also have "\<dots> = row_at a i"
    by (simp add: row_at_def case_prod_beta)
  finally show ?thesis .
qed

lemma row_at_concat_right:
  assumes "wf_frame a" and "wf_frame b" and "columns a = columns b"
  shows "row_at (concat_frames a b) (nrows a + j) = row_at b j"
proof -
  have "row_at (concat_frames a b) (nrows a + j) =
          map (\<lambda>p. (fst p, (col_or_nulls a (fst p) @ col_or_nulls b (fst p)) ! (nrows a + j))) (cols b)"
    using assms(3) by (simp add: row_at_def concat_same_columns [OF assms(3)] columns_def comp_def)
  also have "\<dots> = map (\<lambda>p. (fst p, snd p ! j)) (cols b)"
  proof (rule map_cong [OF refl])
    fix p assume p: "p \<in> set (cols b)"
    then have "(fst p, snd p) \<in> set (cols b)" by simp
    from col_or_nulls_member [OF assms(2) this] col_or_nulls_length [OF assms(1), of "fst p"]
    show "(fst p, (col_or_nulls a (fst p) @ col_or_nulls b (fst p)) ! (nrows a + j)) = (fst p, snd p ! j)"
      by (simp add: nth_append)
  qed
  also have "\<dots> = row_at b j"
    by (simp add: row_at_def case_prod_beta)
  finally show ?thesis .
qed

lemma upt_split_shift:
  "[0..<m + k] = [0..<m] @ map (\<lambda>j. m + j) [0..<k]"
proof -
  have "[0..<m + k] = [0..<m] @ [m..<m + k]"
    by (rule upt_add_eq_append) simp
  moreover have "[m..<m + k] = map (\<lambda>j. m + j) [0..<k]"
    by (induction k) simp_all
  ultimately show ?thesis by simp
qed

lemma iterrows_concat:
  assumes "wf_frame a" and "wf_frame b" and "columns a = columns b"
  shows "iterrows (concat_frames a b) = iterrows a @ iterrows b"
proof -
  have n: "nrows (concat_frames a b) = nrows a + nrows b"
    by (simp add: concat_frames_def)
  have l: "map (row_at (concat_frames a b)) [0..<nrows a] = map (row_at a) [0..<nrows a]"
    by (rule map_cong [OF refl]) (simp add: row_at_concat_left [OF assms(1,3)])
  have r: "map (\<lambda>j. row_at (concat_frames a b) (nrows a + j)) [0..<nrows b] = map (row_at b) [0..<nrows b]"
    by (rule map_cong [OF refl]) (simp add: row_at_concat_right [OF assms])
  have "iterrows (concat_frames a b) =
      map (row_at (concat_frames a b)) ([0..<nrows a] @ map (\<lambda>j. nrows a + j) [0..<nrows b])"
    by (simp only: iterrows_def n upt_split_shift)
  also have "\<dots> = map (row_at (concat_frames a b)) [0..<nrows a] @
      map (\<lambda>j. row_at (concat_frames a b) (nrows a + j)) [0..<nrows b]"
    by (simp add: comp_def)
  finally show ?thesis using l r by (simp add: iterrows_def)
qed


lemma standardize_usgs_clean:
  assumes "wf_frame df" and "fst (standardize_usgs_data X df) = Inr out"
  shows "wf_frame out" and "columns out = canonical" and "nrows out = nrows df"
proof -
  from assms(2) have "standardize_usgs_data X df = (Inr out, snd (standardize_usgs_data X df))"
    by (simp add: prod_eq_iff)
  from standardize_usgs_Inr [OF this] obtain ct cg t m lo la where
    h: "getitem df ''properties.time'' = Inr ct" "traverse (datetime_ms X) ct = Inr t"
       "getitem df ''properties.mag'' = Inr m"
       "getitem df ''geometry.coordinates'' = Inr cg"
       "traverse (subscript 0) cg = Inr lo" "traverse (subscript 1) cg = Inr la"
    and out: "out = \<lparr>nrows = nrows df,
                cols = [(''time'', t), (''magnitude'', m), (''longitude'', lo), (''latitude'', la)]\<rparr>"
    by blast
  have "length t = nrows df"
    using traverse_length [OF h(2)] getitem_wf_length [OF assms(1) h(1)] by simp
  moreover have "length m = nrows df"
    using getitem_wf_length [OF assms(1) h(3)] by simp
  moreover have "length lo = nrows df"
    using traverse_length [OF h(5)] getitem_wf_length [OF assms(1) h(4)] by simp
  moreover have "length la = nrows df"
    using traverse_length [OF h(6)] getitem_wf_length [OF assms(1) h(4)] by simp
  ultimately show "wf_frame out" by (simp add: out wf_frame_def)
  show "columns out = canonical" by (simp add: out columns_def canonical_def)
  show "nrows out = nrows df" by (simp add: out)
qed

lemma standardize_isc_clean:
  assumes "wf_frame df" and "fst (standardize_isc_data X df) = Inr out"
  shows "wf_frame out" and "columns out = canonical" and "nrows out = nrows df"
proof -
  from assms(2) have "standardize_isc_data X df = (Inr out, snd (standardize_isc_data X df))"
    by (simp add: prod_eq_iff)
  from standardize_isc_Inr [OF this] obtain ct cm clo cla t m lo la where
    h: "getitem df ''Time'' = Inr ct" "traverse (datetime_str X) ct = Inr t"
       "getitem df ''Magnitude'' = Inr cm" "traverse (astype_float X) cm = Inr m"
       "getitem df ''Longitude'' = Inr clo" "traverse (astype_float X) clo = Inr lo"
       "getitem df ''Latitude'' = Inr cla" "traverse (astype_float X) cla = Inr la"
    and out: "out = \<lparr>nrows = nrows df,
                cols = [(''time'', t), (''magnitude'', m), (''longitude'', lo), (''latitude'', la)]\<rparr>"
    by blast
  have "length t = nrows df"
    using traverse_length [OF h(2)] getitem_wf_length [OF assms(1) h(1)] by simp
  moreover have "length m = nrows df"
    using traverse_length [OF h(4)] getitem_wf_length [OF assms(1) h(3)] by simp
  moreover have "length lo = nrows df"
    using traverse_length [OF h(6)] getitem_wf_length [OF assms(1) h(5)] by simp
  moreover have "length la = nrows df"
    using traverse_length [OF h(8)] getitem_wf_length [OF assms(1) h(7)] by simp
  ultimately show "wf_frame out" by (simp add: out wf_frame_def)
  show "columns out = canonical" by (simp add: out columns_def canonical_def)
  show "nrows out = nrows df" by (simp add: out)
qed

text \<open>
  C6. For normalized tables \<open>a\<close> (source A, m rows) and \<open>b\<close> (source B, n rows), the
  rows of the merged table are exactly the rows of \<open>a\<close> in their order followed by the
  rows of \<open>b\<close> in theirs: nothing is interleaved and nothing is sorted by time.
\<close>

theorem merged_rows_are_A_then_B:
  assumes "wf_frame usgs_data" and "wf_frame isc_data"
    and "fst (standardize_usgs_data X usgs_data) = Inr a"
    and "fst (standardize_isc_data X isc_data) = Inr b"
  shows "combined_data X usgs_data isc_data = Inr (concat_frames a b) \<and>
         iterrows (concat_frames a b) = iterrows a @ iterrows b \<and>
         length (iterrows a) = nrows usgs_data \<and> length (iterrows b) = nrows isc_data"
proof -
  note A = standardize_usgs_clean [OF assms(1,3)]
  note B = standardize_isc_clean [OF assms(2,4)]
  have "iterrows (concat_frames a b) = iterrows a @ iterrows b"
    by (rule iterrows_concat) (simp_all add: A B)
  then show ?thesis
    by (simp add: combined_data_def assms bind_err_def iterrows_def A B)
qed

lemma demo_wf: "wf_frame demo_usgs_frame" "wf_frame demo_isc_frame"
  by (simp_all add: wf_frame_def demo_usgs_frame_def demo_isc_frame_def)

theorem merged_rows_are_A_then_B_witness:
  "wf_frame demo_usgs_frame \<and> wf_frame demo_isc_frame \<and>
   fst (standardize_usgs_data demo demo_usgs_frame) = Inr demo_usgs_clean \<and>
   fst (standardize_isc_data demo demo_isc_frame) = Inr demo_isc_clean \<and>
   combined_data demo demo_usgs_frame demo_isc_frame = Inr (concat_frames demo_usgs_clean demo_isc_clean) \<and>
   iterrows (concat_frames demo_usgs_clean demo_isc_clean) =
     [[(''time'', Ts ''2023-05-02T00:00:00''), (''magnitude'', Num 6.2),
       (''longitude'', Num (- 120.1)), (''latitude'', Num 35)],
      [(''time'', Ts ''2023-05-01T00:00:00''), (''magnitude'', Num 5.1),
       (''longitude'', Num 140), (''latitude'', Num 36)]]"
proof -
  have a: "fst (standardize_usgs_data demo demo_usgs_frame) = Inr demo_usgs_clean"
    by (simp add: demo_usgs_run)
  have b: "fst (standardize_isc_data demo demo_isc_frame) = Inr demo_isc_clean"
    by (simp add: demo_isc_run)
  have r: "iterrows demo_usgs_clean =
             [[(''time'', Ts ''2023-05-02T00:00:00''), (''magnitude'', Num 6.2),
               (''longitude'', Num (- 120.1)), (''latitude'', Num 35)]]"
          "iterrows demo_isc_clean =
             [[(''time'', Ts ''2023-05-01T00:00:00''), (''magnitude'', Num 5.1),
               (''longitude'', Num 140), (''latitude'', Num 36)]]"
    by (simp_all add: iterrows_def row_at_def demo_usgs_clean_def demo_isc_clean_def)
  from merged_rows_are_A_then_B [OF demo_wf a b] demo_wf a b r
  show ?thesis by simp
qed

lemmas prog_defs = bnd_def ret_def lift_def emit_def connect_def commit_def close_def
  exec_create_def exec_insert_def exec_select_def view_def try_except_def
  fetch_usgs_data_def fetch_isc_data_def insert_usgs_def insert_isc_def insert_combined_def
  tagged_params_def main_params_def run_query_def select_where_def

lemmas frame_defs = getitem_def setitem_def select_cols_def row_at_def iterrows_def
  row_getitem_def row_get_def col_or_nulls_def concat_frames_def columns_def dropna_def isna_def
  head_frame_def isna_sum_def bind_err_def json_normalize_def fetch_isc_frame_def data_frame_def
  pad_row_def records_frame_def result_cols_def canonical_def assign_def
  datetime_ms_def datetime_str_def standardize_usgs_data_def standardize_isc_data_def
  combined_data_def

lemmas sql_defs = create_table_if_not_exists_def find_table_def insert_row_def new_row_def
  insert_cols_def earthquakes_cols_def

lemma demo_replies:
  "usgs_reply demo s e m = Inr demo_features" "isc_reply demo s e m = Inr demo_lines"
  "sqlite_select demo = demo_select"
  by (simp_all add: demo_def)


lemma demo_lib:
  "py_float demo s =
     (if s = ''5.1'' then Some (Num 5.1) else if s = ''140.0'' then Some (Num 140)
      else if s = ''36.0'' then Some (Num 36) else if s = ''nan'' then Some Null else None)"
  "to_datetime_ms demo v =
     (if v = Num 1682985600000 then Some (Ts ''2023-05-02T00:00:00'')
      else if v = Null then Some NaT else None)"
  "to_datetime demo v =
     (if v = Str ''2023-05-01T00:00:00'' then Some (Ts ''2023-05-01T00:00:00'')
      else if v = Null then Some NaT else None)"
  by (simp_all add: demo_def)

subsection \<open>Runs on particular feeds\<close>

lemma empty_feeds_fields:
  "usgs_reply empty_feeds s e m = Inr []" "isc_reply empty_feeds s e m = Inr header_only"
  by (simp_all add: empty_feeds_def)

lemma null_mag_feed_fields:
  "usgs_reply null_mag_feed s e m = Inr null_mag_features"
  "isc_reply null_mag_feed s e m = Inr demo_lines"
  "py_float null_mag_feed = py_float demo"
  "to_datetime_ms null_mag_feed = to_datetime_ms demo"
  "to_datetime null_mag_feed = to_datetime demo"
  "sqlite_select null_mag_feed = demo_select"
  by (simp_all add: null_mag_feed_def demo_def)

lemma standardize_usgs_no_columns:
  "standardize_usgs_data X \<lparr>nrows = 0, cols = []\<rparr> =
     (Inl (KeyError ''properties.time''), \<lparr>nrows = 0, cols = []\<rparr>)"
  by (simp add: standardize_usgs_data_def assign_def getitem_def bind_err_def)

text \<open>
  C9 (the code at the input of the claim). Source A answers with no features and
  source B with its header line only. \<^verbatim>\<open>pd.json_normalize([])\<close> is a table without
  columns, so the first statement of \<^verbatim>\<open>standardize_usgs_data\<close> raises
  \<^verbatim>\<open>KeyError: 'properties.time'\<close>: \<^verbatim>\<open>main\<close> with \<^verbatim>\<open>--fetch\<close> ends with that exception
  after the two requests, before any merged table or INSERT, and so does the module.
\<close>

theorem empty_feeds_raise_KeyError:
  "fst (standardize_usgs_data X (json_normalize [])) = Inl (KeyError ''properties.time'') \<and>
   main empty_feeds fetch_flag \<lparr>disk = db, txn = None, trace = []\<rparr> =
     (Inl (KeyError ''properties.time''),
      \<lparr>disk = db, txn = None, trace = [Get usgs_url, Get isc_url]\<rparr>) \<and>
   run empty_feeds no_flags db =
     (Some (KeyError ''properties.time''), db,
      [Get usgs_url, Print (Table \<lparr>nrows = 0, cols = []\<rparr>), Get isc_url,
       Print (Table \<lparr>nrows = 0, cols = [(''Time'', []), (''Magnitude'', []),
                                          (''Longitude'', []), (''Latitude'', [])]\<rparr>)])"
proof -
  have n: "json_normalize [] = \<lparr>nrows = 0, cols = []\<rparr>"
    by (simp add: json_normalize_def)
  have h: "fetch_isc_frame header_only =
             Inr \<lparr>nrows = 0, cols = [(''Time'', []), (''Magnitude'', []),
                                      (''Longitude'', []), (''Latitude'', [])]\<rparr>"
    by (simp add: fetch_isc_frame_def header_only_def data_frame_def)
  have "main empty_feeds fetch_flag \<lparr>disk = db, txn = None, trace = []\<rparr> =
     (Inl (KeyError ''properties.time''),
      \<lparr>disk = db, txn = None, trace = [Get usgs_url, Get isc_url]\<rparr>)"
    by (simp add: main_def fetch_flag_def fetch_usgs_data_def fetch_isc_data_def
        empty_feeds_fields n h combined_data_def standardize_usgs_no_columns
        bnd_def lift_def emit_def bind_err_def)
  moreover have "run empty_feeds no_flags db =
     (Some (KeyError ''properties.time''), db,
      [Get usgs_url, Print (Table \<lparr>nrows = 0, cols = []\<rparr>), Get isc_url,
       Print (Table \<lparr>nrows = 0, cols = [(''Time'', []), (''Magnitude'', []),
                                          (''Longitude'', []), (''Latitude'', [])]\<rparr>)])"
    by (simp add: run_def script_def fetch_usgs_data_def fetch_isc_data_def
        empty_feeds_fields n h standardize_usgs_no_columns head_frame_def
        bnd_def lift_def emit_def bind_err_def)
  ultimately show ?thesis by (simp add: n standardize_usgs_no_columns)
qed

lemma demo_combined:
  "combined_data demo demo_usgs_frame demo_isc_frame =
     Inr \<lparr>nrows = 2,
          cols = [(''time'', [Ts ''2023-05-02T00:00:00'', Ts ''2023-05-01T00:00:00'']),
                  (''magnitude'', [Num 6.2, Num 5.1]),
                  (''longitude'', [Num (- 120.1), Num 140]),
                  (''latitude'', [Num 35, Num 36])]\<rparr>"
  by (simp add: combined_data_def demo_usgs_run demo_isc_run bind_err_def concat_frames_def
      columns_def col_or_nulls_def demo_usgs_clean_def demo_isc_clean_def)

text \<open>
  The loop of the ISC cell never raises, whatever the rows and the state: each failure
  is printed and the next row is tried. A loop without the handler stops at the first
  failing row.
\<close>

lemma try_except_returns: "\<exists>st'. try_except r body st = (Inr (), st')"
  by (cases "body st") (auto simp: try_except_def emit_def split: sum.splits)

lemma insert_isc_never_raises: "\<exists>st'. insert_isc df st = (Inr (), st')"
proof -
  have "\<exists>st'. for_each (\<lambda>r. try_except r (body r)) rs st = (Inr (), st')" for body rs
  proof (induction rs arbitrary: st)
    case Nil
    then show ?case by (simp add: ret_def)
  next
    case (Cons r rs)
    obtain st1 where "try_except r (body r) st = (Inr (), st1)"
      using try_except_returns by blast
    with Cons show ?case by (simp add: bnd_def)
  qed
  then show ?thesis by (simp add: insert_isc_def)
qed

lemma for_each_stops_at_failure:
  "body r st = (Inl e, st') \<Longrightarrow> for_each body (r # rs) st = (Inl e, st')"
  by (simp add: bnd_def)

text \<open>
  C2 (the code at a failing row). \<^verbatim>\<open>main\<close> with \<^verbatim>\<open>--fetch\<close> on the sample feeds: the
  merged table has two rows; the first INSERT is refused (the time is passed as a
  \<^verbatim>\<open>pandas.Timestamp\<close>), the exception leaves the loop and \<^verbatim>\<open>main\<close>: the second row is
  never tried, nothing is logged, there is no commit and the file is unchanged.
\<close>

theorem main_insert_failure_aborts_batch:
  "main demo fetch_flag \<lparr>disk = empty_db, txn = None, trace = []\<rparr> =
     (Inl (ProgrammingError ''Error binding parameter: type is not supported''),
      \<lparr>disk = empty_db, txn = None,
       trace = [Get usgs_url, Get isc_url, Connect, Execute insert_sql]\<rparr>)"
  apply (simp add: main_def fetch_flag_def fetch_usgs_data_def fetch_isc_data_def demo_replies
      demo_fetched demo_combined bnd_def lift_def emit_def bind_err_def connect_def)
  apply (simp add: insert_combined_def iterrows_def row_at_def upt_rec main_params_def
      row_getitem_def row_get_def exec_insert_def bnd_def lift_def emit_def bind_err_def)
  done

text \<open>
  C5 (the code at a failing input). A source-A feature whose magnitude is null: the
  module's USGS loop inserts its row as it is, and the committed table holds a record
  with a NULL magnitude.
\<close>

theorem usgs_null_magnitude_is_stored:
  "fst (snd (run null_mag_feed no_flags [])) =
     [\<lparr>tname = ''earthquakes'', tcols = earthquakes_cols,
       trows = [[SInt 1, SText ''2023-05-02T00:00:00'', SNull, SReal (- 120.1), SReal 35, SText ''USGS''],
                [SInt 2, SText ''2023-05-01T00:00:00'', SReal 5.1, SReal 140, SReal 36, SText ''ISC'']],
       tseq = 2\<rparr>]"
  apply (simp add: run_def script_def fetch_usgs_data_def fetch_isc_data_def null_mag_feed_fields
      demo_fetched bnd_def ret_def lift_def emit_def bind_err_def)
  apply (simp add: json_normalize_def null_mag_features_def standardize_usgs_data_def
      standardize_isc_data_def demo_isc_frame_def assign_def getitem_def setitem_def select_cols_def
      canonical_def datetime_ms_def datetime_str_def null_mag_feed_fields demo_lib bind_err_def)
  apply (simp add: prog_defs frame_defs sql_defs upt_rec null_mag_feed_fields demo_select_def
      main_def no_flags_def)
  done

subsection \<open>The table is created once\<close>












subsection \<open>The read path\<close>







subsection \<open>The merged table has no source column\<close>





subsection \<open>Rows that survive \<^verbatim>\<open>dropna\<close>\<close>











end
